theory Spec2Isabelle
  imports Main "HOL-Library.Word"
begin

section \<open>JavaScript strings and \<open>encodeURIComponent\<close>\<close>

text \<open>
  A JavaScript string is a sequence of 16-bit code units (UTF-16). String literals of
  the component are ASCII, so \<open>js\<close> lifts an ASCII literal to code units.
\<close>

type_synonym jsstring = "16 word list"

definition js :: "string \<Rightarrow> jsstring" where
  "js s = map of_char s"

text \<open>The line feed written \<^verbatim>\<open>\n\<close> in the vCard template literal.\<close>

definition nl :: "16 word" where
  "nl = 0x0A"

datatype error = URIError | EncodeFailure | FetchFailure | ClipboardFailure | ShareFailure

text \<open>
  \<open>encodeURIComponent\<close> is the built-in the component calls on the free-text fields
  (ECMA-262, abstract operation Encode with the unreserved set of
  \<open>encodeURIComponent\<close>): a code unit of the unreserved set is copied; any other code
  point is written as the \<open>%XX\<close> escapes of its UTF-8 octets, upper-case hex; an
  unpaired surrogate raises \<open>URIError\<close>.
\<close>

definition uriUnescaped :: "16 word \<Rightarrow> bool" where
  "uriUnescaped c \<longleftrightarrow>
     c \<in> set (js ''ABCDEFGHIJKLMNOPQRSTUVWXYZabcdefghijklmnopqrstuvwxyz0123456789-_.!~*'()'')"

definition hexDigit :: "int \<Rightarrow> 16 word" where
  "hexDigit n = (if n < 10 then of_int (0x30 + n) else of_int (0x37 + n))"

definition percentOctet :: "int \<Rightarrow> jsstring" where
  "percentOctet b = js ''%'' @ [hexDigit (b div 16), hexDigit (b mod 16)]"

definition utf8Octets :: "int \<Rightarrow> int list" where
  "utf8Octets cp =
     (if cp < 0x80 then [cp]
      else if cp < 0x800 then [0xC0 + cp div 64, 0x80 + cp mod 64]
      else if cp < 0x10000 then
        [0xE0 + cp div 4096, 0x80 + (cp div 64) mod 64, 0x80 + cp mod 64]
      else [0xF0 + cp div 262144, 0x80 + (cp div 4096) mod 64,
            0x80 + (cp div 64) mod 64, 0x80 + cp mod 64])"

definition percentCodePoint :: "int \<Rightarrow> jsstring" where
  "percentCodePoint cp = concat (map percentOctet (utf8Octets cp))"

definition isLeadSurrogate :: "16 word \<Rightarrow> bool" where
  "isLeadSurrogate c \<longleftrightarrow> 0xD800 \<le> c \<and> c \<le> 0xDBFF"

definition isTrailSurrogate :: "16 word \<Rightarrow> bool" where
  "isTrailSurrogate c \<longleftrightarrow> 0xDC00 \<le> c \<and> c \<le> 0xDFFF"

definition prepend :: "jsstring \<Rightarrow> error + jsstring \<Rightarrow> error + jsstring" where
  "prepend p r = (case r of Inl e \<Rightarrow> Inl e | Inr s \<Rightarrow> Inr (p @ s))"

text \<open>
  The parts of a template literal are evaluated from left to right and concatenated; the
  first part that raises decides the outcome.
\<close>

fun concatE :: "(error + jsstring) list \<Rightarrow> error + jsstring" where
  "concatE [] = Inr []"
| "concatE (Inl e # xs) = Inl e"
| "concatE (Inr s # xs) = prepend s (concatE xs)"

fun encodeURIComponent :: "jsstring \<Rightarrow> error + jsstring" where
  "encodeURIComponent [] = Inr []"
| "encodeURIComponent (c # cs) =
     (if uriUnescaped c then prepend [c] (encodeURIComponent cs)
      else if isTrailSurrogate c then Inl URIError
      else if isLeadSurrogate c then
        (case cs of
           [] \<Rightarrow> Inl URIError
         | d # ds \<Rightarrow>
             if isTrailSurrogate d
             then prepend
                    (percentCodePoint
                       ((uint c - 0xD800) * 0x400 + (uint d - 0xDC00) + 0x10000))
                    (encodeURIComponent ds)
             else Inl URIError)
      else prepend (percentCodePoint (uint c)) (encodeURIComponent cs))"

text \<open>A string is well formed when it has no unpaired surrogate.\<close>

fun wellFormed :: "jsstring \<Rightarrow> bool" where
  "wellFormed [] = True"
| "wellFormed (c # cs) =
     (if isTrailSurrogate c then False
      else if isLeadSurrogate c then
        (case cs of [] \<Rightarrow> False | d # ds \<Rightarrow> isTrailSurrogate d \<and> wellFormed ds)
      else wellFormed cs)"


section \<open>The form state of \<open>QRGenerator\<close>\<close>

datatype QRType = Url | Text | Email | Phone | Sms | Contact | Wifi

record EmailData =
  email :: jsstring
  subject :: jsstring
  body :: jsstring

record SmsData =
  phone :: jsstring
  message :: jsstring

record ContactData =
  firstName :: jsstring
  lastName :: jsstring
  organization :: jsstring
  title :: jsstring
  email :: jsstring
  phone :: jsstring
  mobile :: jsstring

record WiFiData =
  ssid :: jsstring
  password :: jsstring
  security :: jsstring
  hidden :: bool

text \<open>One field per \<open>useState\<close> of the component.\<close>

record form_state =
  qrData :: jsstring
  qrCode :: jsstring
  activeTab :: QRType
  trackScans :: bool
  removeWatermark :: bool
  urlData :: jsstring
  textData :: jsstring
  emailData :: EmailData
  phoneData :: jsstring
  smsData :: SmsData
  contactData :: ContactData
  wifiData :: WiFiData

text \<open>What a template literal writes for a value of type \<open>QRType\<close> and for a boolean.\<close>

fun kindName :: "QRType \<Rightarrow> jsstring" where
  "kindName Url = js ''url''"
| "kindName Text = js ''text''"
| "kindName Email = js ''email''"
| "kindName Phone = js ''phone''"
| "kindName Sms = js ''sms''"
| "kindName Contact = js ''contact''"
| "kindName Wifi = js ''wifi''"

definition boolString :: "bool \<Rightarrow> jsstring" where
  "boolString b = (if b then js ''true'' else js ''false'')"


section \<open>The payload switch\<close>

text \<open>
  The \<open>switch (activeTab)\<close> of the first effect: the value of \<open>data\<close> handed to
  \<open>setQrData\<close>, or the exception a call of \<open>encodeURIComponent\<close> raised.
  \<open>x || d\<close> on strings is \<open>d\<close> exactly when \<open>x\<close> is the empty string.
\<close>

definition formatData :: "form_state \<Rightarrow> error + jsstring" where
  "formatData st =
     (case activeTab st of
        Url \<Rightarrow> Inr (if urlData st \<noteq> [] then urlData st else js ''https://example.com'')
      | Text \<Rightarrow> Inr (if textData st \<noteq> [] then textData st else js ''Sample text'')
      | Email \<Rightarrow>
          (case encodeURIComponent (EmailData.subject (emailData st)) of
             Inl e \<Rightarrow> Inl e
           | Inr s \<Rightarrow>
               (case encodeURIComponent (EmailData.body (emailData st)) of
                  Inl e \<Rightarrow> Inl e
                | Inr b \<Rightarrow>
                    Inr (js ''mailto:'' @ EmailData.email (emailData st)
                         @ js ''?subject='' @ s @ js ''&body='' @ b)))
      | Phone \<Rightarrow> Inr (js ''tel:'' @ phoneData st)
      | Sms \<Rightarrow>
          (case encodeURIComponent (SmsData.message (smsData st)) of
             Inl e \<Rightarrow> Inl e
           | Inr m \<Rightarrow> Inr (js ''sms:'' @ SmsData.phone (smsData st) @ js ''?body='' @ m))
      | Contact \<Rightarrow>
          Inr (js ''BEGIN:VCARD'' @ [nl] @ js ''VERSION:3.0'' @ [nl]
               @ js ''FN:'' @ ContactData.firstName (contactData st) @ js '' ''
               @ ContactData.lastName (contactData st) @ [nl]
               @ js ''ORG:'' @ ContactData.organization (contactData st) @ [nl]
               @ js ''TITLE:'' @ ContactData.title (contactData st) @ [nl]
               @ js ''EMAIL:'' @ ContactData.email (contactData st) @ [nl]
               @ js ''TEL:'' @ ContactData.phone (contactData st) @ [nl]
               @ js ''TEL;TYPE=CELL:'' @ ContactData.mobile (contactData st) @ [nl]
               @ js ''END:VCARD'')
      | Wifi \<Rightarrow>
          Inr (js ''WIFI:T:'' @ WiFiData.security (wifiData st)
               @ js '';S:'' @ WiFiData.ssid (wifiData st)
               @ js '';P:'' @ WiFiData.password (wifiData st)
               @ js '';H:'' @ boolString (WiFiData.hidden (wifiData st)) @ js '';''))"

text \<open>The state the \<open>useState\<close> initialisers give.\<close>

definition initialForm :: form_state where
  "initialForm =
     \<lparr> qrData = [], qrCode = [], activeTab = Url, trackScans = False,
       removeWatermark = False, urlData = [], textData = [],
       emailData = \<lparr> EmailData.email = [], subject = [], body = [] \<rparr>,
       phoneData = [],
       smsData = \<lparr> SmsData.phone = [], message = [] \<rparr>,
       contactData = \<lparr> firstName = [], lastName = [], organization = [], title = [],
                       email = [], phone = [], mobile = [] \<rparr>,
       wifiData = \<lparr> ssid = [], password = [], security = js ''WPA'', hidden = False \<rparr> \<rparr>"


text \<open>
  The fields whose encoding can raise on the active tab: the payload switch calls
  \<open>encodeURIComponent\<close> on the email subject and body and on the SMS message only.
\<close>

definition payloadFieldsWellFormed :: "form_state \<Rightarrow> bool" where
  "payloadFieldsWellFormed st =
     (case activeTab st of
        Email \<Rightarrow> wellFormed (EmailData.subject (emailData st))
                  \<and> wellFormed (EmailData.body (emailData st))
      | Sms \<Rightarrow> wellFormed (SmsData.message (smsData st))
      | _ \<Rightarrow> True)"


section \<open>Lines of a payload\<close>

text \<open>
  The specification counts the lines of the vCard block. \<open>splitLines\<close> cuts a string
  at every line feed (as \<open>s.split("\n")\<close> does) and \<open>joinLines\<close> joins with a line
  feed (as \<open>lines.join("\n")\<close> does); \<open>vcardLines\<close> are the lines the specification
  lists for a contact record, and \<open>contactFields\<close> the record's seven strings.
\<close>

fun splitLines :: "jsstring \<Rightarrow> jsstring list" where
  "splitLines [] = [[]]"
| "splitLines (c # cs) =
     (if c = nl then [] # splitLines cs
      else (case splitLines cs of [] \<Rightarrow> [[c]] | l # ls \<Rightarrow> (c # l) # ls))"

fun joinLines :: "jsstring list \<Rightarrow> jsstring" where
  "joinLines [] = []"
| "joinLines [l] = l"
| "joinLines (l # ls) = l @ nl # joinLines ls"

definition contactFields :: "ContactData \<Rightarrow> jsstring list" where
  "contactFields c =
     [firstName c, lastName c, organization c, title c,
      ContactData.email c, ContactData.phone c, mobile c]"

definition vcardLines :: "ContactData \<Rightarrow> jsstring list" where
  "vcardLines c =
     [js ''BEGIN:VCARD'',
      js ''VERSION:3.0'',
      js ''FN:'' @ firstName c @ js '' '' @ lastName c,
      js ''ORG:'' @ organization c,
      js ''TITLE:'' @ title c,
      js ''EMAIL:'' @ ContactData.email c,
      js ''TEL:'' @ ContactData.phone c,
      js ''TEL;TYPE=CELL:'' @ mobile c,
      js ''END:VCARD'']"


section \<open>The component and its platform\<close>

text \<open>
  The collaborators of the component are parameters: \<open>toDataURL\<close> is the outcome of
  \<open>QRCode.toDataURL\<close> for a payload (the data URL it resolves with, or the error it
  rejects with), \<open>hasShare\<close> is the truth value of \<open>navigator.share\<close>, \<open>fetchBlob\<close>
  is \<open>fetch(qrCode)\<close> followed by \<open>response.blob()\<close>, \<open>clipboardWrite\<close> is
  \<open>navigator.clipboard.write\<close> and \<open>share\<close> is \<open>navigator.share\<close> with a title
  and one named file.
\<close>

type_synonym blob = "8 word list"

record platform =
  toDataURL :: "jsstring \<Rightarrow> error + jsstring"
  hasShare :: bool
  fetchBlob :: "jsstring \<Rightarrow> error + blob"
  clipboardWrite :: "blob \<Rightarrow> error + unit"
  share :: "jsstring \<Rightarrow> jsstring \<Rightarrow> blob \<Rightarrow> error + unit"

record Toast =
  title :: jsstring
  description :: jsstring
  destructive :: bool

text \<open>
  The world is the form state together with what the component does to its surroundings:
  the encode promises not yet settled (their payloads, in the order issued), the toasts
  shown, the files saved by \<open>link.click()\<close>, the clipboard writes, the shares, and the
  promise rejections nobody handles.
\<close>

record world =
  form :: form_state
  inflight :: "jsstring list"
  toasts :: "Toast list"
  saved :: "(jsstring \<times> jsstring) list"
  clipboard :: "blob list"
  shared :: "(jsstring \<times> jsstring \<times> blob) list"
  unhandled :: "error list"

definition initialWorld :: world where
  "initialWorld =
     \<lparr> form = initialForm, inflight = [], toasts = [], saved = [], clipboard = [],
       shared = [], unhandled = [] \<rparr>"

definition toast :: "Toast \<Rightarrow> world \<Rightarrow> world" where
  "toast t w = w\<lparr>toasts := toasts w @ [t]\<rparr>"

definition setQrData :: "jsstring \<Rightarrow> world \<Rightarrow> world" where
  "setQrData d w = w\<lparr>form := (form w)\<lparr>qrData := d\<rparr>\<rparr>"

definition setQrCode :: "jsstring \<Rightarrow> world \<Rightarrow> world" where
  "setQrCode c w = w\<lparr>form := (form w)\<lparr>qrCode := c\<rparr>\<rparr>"

subsection \<open>The two effects\<close>

text \<open>
  The second effect, with dependency list \<open>[qrData]\<close>: under the guard
  \<open>if (qrData)\<close> it calls \<open>QRCode.toDataURL(qrData, ...).then(setQrCode)\<close>, which
  leaves one more promise in flight.
\<close>

definition encodeEffect :: "world \<Rightarrow> world" where
  "encodeEffect w =
     (if qrData (form w) \<noteq> [] then w\<lparr>inflight := inflight w @ [qrData (form w)]\<rparr> else w)"

text \<open>
  \<open>setQrData d\<close> with the value \<open>qrData\<close> already has changes nothing and runs no
  effect; with another value the component renders again and the second effect runs.
\<close>

definition rerender :: "jsstring \<Rightarrow> world \<Rightarrow> world" where
  "rerender d w = (if d = qrData (form w) then w else encodeEffect (setQrData d w))"

text \<open>
  After a change of the tab or of a record the first effect runs: it computes \<open>data\<close>
  and calls \<open>setQrData\<close>. An exception raised inside the effect is not caught anywhere
  in the component: the result is the error.
\<close>

definition commit :: "world \<Rightarrow> error + world" where
  "commit w = (case formatData (form w) of Inl e \<Rightarrow> Inl e | Inr d \<Rightarrow> Inr (rerender d w))"

text \<open>
  The first render runs both effects on the initial state: the first computes \<open>data\<close>,
  the second sees the initial \<open>qrData\<close>; then \<open>setQrData\<close> takes effect.
\<close>

definition mount :: "error + world" where
  "mount =
     (case formatData (form initialWorld) of
        Inl e \<Rightarrow> Inl e
      | Inr d \<Rightarrow> Inr (rerender d (encodeEffect initialWorld)))"

text \<open>
  The promise at position \<open>i\<close> of the ones in flight settles. Fulfilled, its
  \<open>then(setQrCode)\<close> stores the data URL. Rejected, \<open>then\<close> has no rejection handler
  and no \<open>catch\<close> follows: the rejection stays unhandled.
\<close>

definition dropAt :: "nat \<Rightarrow> 'a list \<Rightarrow> 'a list" where
  "dropAt i xs = take i xs @ drop (Suc i) xs"

definition settle :: "platform \<Rightarrow> nat \<Rightarrow> world \<Rightarrow> world" where
  "settle pf i w =
     (if i < length (inflight w) then
        (case toDataURL pf (inflight w ! i) of
           Inr url \<Rightarrow> setQrCode url (w\<lparr>inflight := dropAt i (inflight w)\<rparr>)
         | Inl e \<Rightarrow> w\<lparr>inflight := dropAt i (inflight w), unhandled := unhandled w @ [e]\<rparr>)
      else w)"

subsection \<open>The three handlers\<close>

definition fileName :: "form_state \<Rightarrow> jsstring" where
  "fileName st = js ''qr-code-'' @ kindName (activeTab st) @ js ''.png''"

definition downloadedToast :: Toast where
  "downloadedToast =
     \<lparr> title = js ''QR Code Downloaded'',
       description = js ''Your QR code has been saved successfully!'',
       destructive = False \<rparr>"

definition copiedToast :: Toast where
  "copiedToast =
     \<lparr> title = js ''QR Code Copied'', description = js ''QR code copied to clipboard!'',
       destructive = False \<rparr>"

definition copyFailedToast :: Toast where
  "copyFailedToast =
     \<lparr> title = js ''Copy Failed'', description = js ''Unable to copy QR code to clipboard.'',
       destructive = True \<rparr>"

definition shareFailedToast :: Toast where
  "shareFailedToast =
     \<lparr> title = js ''Share Failed'', description = js ''Unable to share QR code.'',
       destructive = True \<rparr>"

text \<open>
  A handler returns the world it leaves, or the exception that escapes it. The handlers
  are taken as one step each: between their \<open>await\<close>s they only read \<open>qrCode\<close> and
  \<open>activeTab\<close> as they were at the click.
\<close>

definition downloadQR :: "world \<Rightarrow> error + world" where
  "downloadQR w =
     (if qrCode (form w) \<noteq> [] then
        Inr (toast downloadedToast
               (w\<lparr>saved := saved w @ [(fileName (form w), qrCode (form w))]\<rparr>))
      else Inr w)"

text \<open>The body of the \<open>try\<close> block of \<open>copyQR\<close>.\<close>

definition copyAttempt :: "platform \<Rightarrow> world \<Rightarrow> error + world" where
  "copyAttempt pf w =
     (case fetchBlob pf (qrCode (form w)) of
        Inl e \<Rightarrow> Inl e
      | Inr b \<Rightarrow>
          (case clipboardWrite pf b of
             Inl e \<Rightarrow> Inl e
           | Inr u \<Rightarrow> Inr (toast copiedToast (w\<lparr>clipboard := clipboard w @ [b]\<rparr>))))"

definition copyQR :: "platform \<Rightarrow> world \<Rightarrow> error + world" where
  "copyQR pf w =
     (if qrCode (form w) \<noteq> [] then
        (case copyAttempt pf w of
           Inr w' \<Rightarrow> Inr w'
         | Inl err \<Rightarrow> Inr (toast copyFailedToast w))
      else Inr w)"

text \<open>The body of the \<open>try\<close> block of \<open>shareQR\<close>.\<close>

definition shareAttempt :: "platform \<Rightarrow> world \<Rightarrow> error + world" where
  "shareAttempt pf w =
     (case fetchBlob pf (qrCode (form w)) of
        Inl e \<Rightarrow> Inl e
      | Inr b \<Rightarrow>
          (case share pf (js ''QR Code'') (fileName (form w)) b of
             Inl e \<Rightarrow> Inl e
           | Inr u \<Rightarrow>
               Inr (w\<lparr>shared := shared w @ [(js ''QR Code'', fileName (form w), b)]\<rparr>)))"

definition shareQR :: "platform \<Rightarrow> world \<Rightarrow> error + world" where
  "shareQR pf w =
     (if hasShare pf \<and> qrCode (form w) \<noteq> [] then
        (case shareAttempt pf w of
           Inr w' \<Rightarrow> Inr w'
         | Inl err \<Rightarrow> Inr (toast shareFailedToast w))
      else Inr w)"

subsection \<open>Events\<close>

text \<open>
  What can happen to the mounted component: a setter called from an input
  (\<open>trackScans\<close> and \<open>removeWatermark\<close> are in no dependency list, so no effect runs
  after them), an encode promise settling, and a click on one of the three buttons.
\<close>

datatype event =
    SetActiveTab QRType
  | SetUrlData jsstring
  | SetTextData jsstring
  | SetEmailData EmailData
  | SetPhoneData jsstring
  | SetSmsData SmsData
  | SetContactData ContactData
  | SetWifiData WiFiData
  | SetTrackScans bool
  | SetRemoveWatermark bool
  | Settle nat
  | ClickDownload
  | ClickCopy
  | ClickShare

fun step :: "platform \<Rightarrow> event \<Rightarrow> world \<Rightarrow> error + world" where
  "step pf (SetActiveTab k) w = commit (w\<lparr>form := (form w)\<lparr>activeTab := k\<rparr>\<rparr>)"
| "step pf (SetUrlData s) w = commit (w\<lparr>form := (form w)\<lparr>urlData := s\<rparr>\<rparr>)"
| "step pf (SetTextData s) w = commit (w\<lparr>form := (form w)\<lparr>textData := s\<rparr>\<rparr>)"
| "step pf (SetEmailData r) w = commit (w\<lparr>form := (form w)\<lparr>emailData := r\<rparr>\<rparr>)"
| "step pf (SetPhoneData s) w = commit (w\<lparr>form := (form w)\<lparr>phoneData := s\<rparr>\<rparr>)"
| "step pf (SetSmsData r) w = commit (w\<lparr>form := (form w)\<lparr>smsData := r\<rparr>\<rparr>)"
| "step pf (SetContactData r) w = commit (w\<lparr>form := (form w)\<lparr>contactData := r\<rparr>\<rparr>)"
| "step pf (SetWifiData r) w = commit (w\<lparr>form := (form w)\<lparr>wifiData := r\<rparr>\<rparr>)"
| "step pf (SetTrackScans b) w = Inr (w\<lparr>form := (form w)\<lparr>trackScans := b\<rparr>\<rparr>)"
| "step pf (SetRemoveWatermark b) w = Inr (w\<lparr>form := (form w)\<lparr>removeWatermark := b\<rparr>\<rparr>)"
| "step pf (Settle i) w = Inr (settle pf i w)"
| "step pf ClickDownload w = downloadQR w"
| "step pf ClickCopy w = copyQR pf w"
| "step pf ClickShare w = shareQR pf w"

fun run :: "platform \<Rightarrow> event list \<Rightarrow> world \<Rightarrow> error + world" where
  "run pf [] w = Inr w"
| "run pf (e # es) w = (case step pf e w of Inl x \<Rightarrow> Inl x | Inr w' \<Rightarrow> run pf es w')"

definition runFromMount :: "platform \<Rightarrow> event list \<Rightarrow> error + world" where
  "runFromMount pf es = (case mount of Inl x \<Rightarrow> Inl x | Inr w \<Rightarrow> run pf es w)"

text \<open>What is read off the outcome of a run.\<close>

definition shown :: "error + world \<Rightarrow> (jsstring \<times> jsstring) option" where
  "shown r = (case r of Inl e \<Rightarrow> None | Inr w \<Rightarrow> Some (qrData (form w), qrCode (form w)))"

definition formAfter :: "error + world \<Rightarrow> form_state option" where
  "formAfter r = (case r of Inl e \<Rightarrow> None | Inr w \<Rightarrow> Some (form w))"

definition observed :: "error + world \<Rightarrow> (jsstring \<times> Toast list \<times> error list) option" where
  "observed r =
     (case r of Inl e \<Rightarrow> None | Inr w \<Rightarrow> Some (qrCode (form w), toasts w, unhandled w))"

definition pending :: "error + world \<Rightarrow> jsstring list option" where
  "pending r = (case r of Inl e \<Rightarrow> None | Inr w \<Rightarrow> Some (inflight w))"


section \<open>Concrete inputs\<close>

text \<open>The records of the specification's examples.\<close>

definition emailExample :: form_state where
  "emailExample =
     initialForm\<lparr>activeTab := Email,
       emailData := \<lparr> EmailData.email = js ''a@b.com'', subject = js ''Hi there'',
                      body = js ''line1&line2'' \<rparr>\<rparr>"

definition contactExample :: form_state where
  "contactExample =
     initialForm\<lparr>activeTab := Contact,
       contactData := \<lparr> firstName = js ''Jane'', lastName = js ''Doe'',
                        organization = js ''Acme'', title = js ''Eng'',
                        email = js ''j@acme.com'', phone = js ''111'', mobile = js ''222'' \<rparr>\<rparr>"

definition vcardExample :: jsstring where
  "vcardExample =
     js ''BEGIN:VCARD'' @ [nl] @ js ''VERSION:3.0'' @ [nl] @ js ''FN:Jane Doe'' @ [nl]
     @ js ''ORG:Acme'' @ [nl] @ js ''TITLE:Eng'' @ [nl] @ js ''EMAIL:j@acme.com'' @ [nl]
     @ js ''TEL:111'' @ [nl] @ js ''TEL;TYPE=CELL:222'' @ [nl] @ js ''END:VCARD''"

definition wifiExample :: form_state where
  "wifiExample =
     initialForm\<lparr>activeTab := Wifi,
       wifiData := \<lparr> ssid = js ''Net'', password = js ''pw'', security = js ''WPA'',
                     hidden = True \<rparr>\<rparr>"

text \<open>An email subject that is a lone lead surrogate (half of an emoji).\<close>

definition surrogateExample :: form_state where
  "surrogateExample =
     initialForm\<lparr>activeTab := Email,
       emailData := \<lparr> EmailData.email = js ''a@b.com'', subject = [0xD83D], body = [] \<rparr>\<rparr>"

text \<open>A text of 3000 letters, more than a QR symbol holds.\<close>

definition oversized :: jsstring where
  "oversized = replicate 3000 (of_char CHR ''a'')"

text \<open>
  A platform to run the component on: the encoder rejects a payload longer than \<open>cap\<close>
  code units and otherwise resolves with a data URL that determines the payload; the
  clipboard refuses every write and every share is rejected.
\<close>

definition demoPlatform :: "nat \<Rightarrow> platform" where
  "demoPlatform cap =
     \<lparr> toDataURL = (\<lambda>p. if cap < length p then Inl EncodeFailure
                         else Inr (js ''data:image/png;'' @ p)),
       hasShare = True,
       fetchBlob = (\<lambda>u. Inr (map ucast u)),
       clipboardWrite = (\<lambda>b. Inl ClipboardFailure),
       share = (\<lambda>t f b. Inl ShareFailure) \<rparr>"

text \<open>
  The world after the user typed \<open>a\<close> and then \<open>b\<close> into the URL field and the
  encode issued at mount has resolved: two encodes are in flight.
\<close>

definition racingWorld :: world where
  "racingWorld =
     \<lparr> form = initialForm\<lparr>qrData := js ''ab'', urlData := js ''ab'',
                            qrCode := js ''data:image/png;https://example.com''\<rparr>,
       inflight = [js ''a'', js ''ab''], toasts = [], saved = [], clipboard = [],
       shared = [], unhandled = [] \<rparr>"

text \<open>The email example entered into the form, before and after the effects ran.\<close>

definition emailWorld :: world where
  "emailWorld = initialWorld\<lparr>form := emailExample\<rparr>"

definition emailWorldCommitted :: world where
  "emailWorldCommitted =
     initialWorld\<lparr>form := emailExample\<lparr>qrData :=
                       js ''mailto:a@b.com?subject=Hi%20there&body=line1%26line2''\<rparr>,
                   inflight := [js ''mailto:a@b.com?subject=Hi%20there&body=line1%26line2'']\<rparr>"

text \<open>A world that shows an image.\<close>

definition imageWorld :: world where
  "imageWorld = setQrCode (js ''data:image/png;https://example.com'') initialWorld"


section \<open>Facts about \<open>encodeURIComponent\<close>\<close>

lemma unescaped_all_ascii:
  "\<forall>c \<in> set (js ''ABCDEFGHIJKLMNOPQRSTUVWXYZabcdefghijklmnopqrstuvwxyz0123456789-_.!~*'()'').
     c < 0x80"
  by code_simp

lemma uriUnescaped_ascii: "uriUnescaped c \<Longrightarrow> c < 0x80"
  using unescaped_all_ascii unfolding uriUnescaped_def by blast

lemma uriUnescaped_not_surrogate:
  assumes "uriUnescaped c"
  shows "\<not> isTrailSurrogate c" and "\<not> isLeadSurrogate c"
proof -
  have c: "c < 0x80" using assms by (rule uriUnescaped_ascii)
  have "(0x80 :: 16 word) < 0xD800" and "(0x80 :: 16 word) < 0xDC00" by simp_all
  with c have "c < 0xD800" and "c < 0xDC00" by (meson less_trans)+
  then show "\<not> isTrailSurrogate c" and "\<not> isLeadSurrogate c"
    by (simp_all add: isTrailSurrogate_def isLeadSurrogate_def not_le)
qed

lemma isl_prepend: "isl (prepend p x) = isl x"
  by (cases x) (simp_all add: prepend_def)

lemma prepend_Inl: "prepend p x = Inl e \<longleftrightarrow> x = Inl e"
  by (cases x) (simp_all add: prepend_def)

text \<open>Encoding raises exactly on the strings with an unpaired surrogate.\<close>

lemma encodeURIComponent_isl: "isl (encodeURIComponent s) \<longleftrightarrow> \<not> wellFormed s"
proof (induction s rule: encodeURIComponent.induct)
  case 1
  show ?case by simp
next
  case (2 c cs)
  consider (unescaped) "uriUnescaped c"
    | (trail) "\<not> uriUnescaped c" "isTrailSurrogate c"
    | (lead) "\<not> uriUnescaped c" "\<not> isTrailSurrogate c" "isLeadSurrogate c"
    | (other) "\<not> uriUnescaped c" "\<not> isTrailSurrogate c" "\<not> isLeadSurrogate c"
    by blast
  then show ?case
  proof cases
    case unescaped
    with "2.IH"(1) uriUnescaped_not_surrogate [of c] show ?thesis
      by (simp add: isl_prepend)
  next
    case trail
    then show ?thesis by simp
  next
    case lead
    show ?thesis
    proof (cases cs)
      case Nil
      with lead show ?thesis by simp
    next
      case (Cons d ds)
      with lead "2.IH"(2) show ?thesis by (simp add: isl_prepend)
    qed
  next
    case other
    with "2.IH"(3) show ?thesis by (simp add: isl_prepend)
  qed
qed

lemma encodeURIComponent_error: "encodeURIComponent s = Inl e \<Longrightarrow> e = URIError"
proof (induction s rule: encodeURIComponent.induct)
  case 1
  then show ?case by simp
next
  case (2 c cs)
  consider (unescaped) "uriUnescaped c"
    | (trail) "\<not> uriUnescaped c" "isTrailSurrogate c"
    | (lead) "\<not> uriUnescaped c" "\<not> isTrailSurrogate c" "isLeadSurrogate c"
    | (other) "\<not> uriUnescaped c" "\<not> isTrailSurrogate c" "\<not> isLeadSurrogate c"
    by blast
  then show ?case
  proof cases
    case unescaped
    with "2.IH"(1) "2.prems" show ?thesis by (simp add: prepend_Inl)
  next
    case trail
    with "2.prems" show ?thesis by simp
  next
    case lead
    show ?thesis
    proof (cases cs)
      case Nil
      with lead "2.prems" show ?thesis by simp
    next
      case (Cons d ds)
      with lead "2.IH"(2) "2.prems" show ?thesis
        by (cases "isTrailSurrogate d") (simp_all add: prepend_Inl)
    qed
  next
    case other
    with "2.IH"(3) "2.prems" show ?thesis by (simp add: prepend_Inl)
  qed
qed

lemma encodeURIComponent_wellFormed:
  "wellFormed s \<longleftrightarrow> (\<exists>r. encodeURIComponent s = Inr r)"
  using encodeURIComponent_isl [of s] by (cases "encodeURIComponent s") simp_all

text \<open>Unreserved characters pass through unchanged.\<close>

lemma encodeURIComponent_unescaped:
  "\<forall>c \<in> set s. uriUnescaped c \<Longrightarrow> encodeURIComponent s = Inr s"
  by (induction s) (simp_all add: prepend_def)

lemma encodeURIComponent_examples:
  "encodeURIComponent (js ''Hi there'') = Inr (js ''Hi%20there'')"
  "encodeURIComponent (js ''line1&line2'') = Inr (js ''line1%26line2'')"
  "encodeURIComponent [0xE9] = Inr (js ''%C3%A9'')"
  "encodeURIComponent [0x20AC] = Inr (js ''%E2%82%AC'')"
  "encodeURIComponent [0xD83D, 0xDE00] = Inr (js ''%F0%9F%98%80'')"
  "encodeURIComponent [0xD83D] = Inl URIError"
  "encodeURIComponent [0xDE00, 0xD83D] = Inl URIError"
  by code_simp+


section \<open>Payload templates\<close>

text \<open>
  C1. On the email tab the payload is, for every record, the concatenation
  \<open>mailto:\<close>, the address, \<open>?subject=\<close>, \<open>encodeURIComponent(subject)\<close>,
  \<open>&body=\<close>, \<open>encodeURIComponent(body)\<close>: only the subject and the body are
  encoded, the address and the delimiters are not. When both encodings return, \<open>s\<close> and
  \<open>b\<close>, the payload is the string \<open>mailto:<email>?subject=<s>&body=<b>\<close>.
\<close>

theorem format_email:
  assumes "activeTab st = Email"
  shows "formatData st =
           concatE [Inr (js ''mailto:''), Inr (EmailData.email (emailData st)),
                    Inr (js ''?subject=''), encodeURIComponent (EmailData.subject (emailData st)),
                    Inr (js ''&body=''), encodeURIComponent (EmailData.body (emailData st))]
         \<and> (encodeURIComponent (EmailData.subject (emailData st)) = Inr s
              \<and> encodeURIComponent (EmailData.body (emailData st)) = Inr b \<longrightarrow>
            formatData st =
              Inr (js ''mailto:'' @ EmailData.email (emailData st)
                   @ js ''?subject='' @ s @ js ''&body='' @ b))"
  using assms
  by (cases "encodeURIComponent (EmailData.subject (emailData st))";
      cases "encodeURIComponent (EmailData.body (emailData st))")
     (simp_all add: formatData_def prepend_def)

text \<open>The example of the specification.\<close>

theorem format_email_witness:
  "activeTab emailExample = Email
   \<and> encodeURIComponent (EmailData.subject (emailData emailExample)) = Inr (js ''Hi%20there'')
   \<and> encodeURIComponent (EmailData.body (emailData emailExample)) = Inr (js ''line1%26line2'')
   \<and> formatData emailExample
       = Inr (js ''mailto:a@b.com?subject=Hi%20there&body=line1%26line2'')"
proof -
  have t: "activeTab emailExample = Email"
    by (simp add: emailExample_def)
  have s: "encodeURIComponent (EmailData.subject (emailData emailExample))
             = Inr (js ''Hi%20there'')"
    by code_simp
  have b: "encodeURIComponent (EmailData.body (emailData emailExample))
             = Inr (js ''line1%26line2'')"
    by code_simp
  have "formatData emailExample
          = Inr (js ''mailto:a@b.com?subject=Hi%20there&body=line1%26line2'')"
    using format_email [OF t, of "js ''Hi%20there''" "js ''line1%26line2''"] s b
    by (simp add: emailExample_def js_def prepend_def)
  with t s b show ?thesis by simp
qed

text \<open>When encoding the subject or the body raises, so does the switch.\<close>

lemma format_email_raises:
  assumes "activeTab st = Email"
  shows "encodeURIComponent (EmailData.subject (emailData st)) = Inl e \<Longrightarrow>
           formatData st = Inl e"
    and "encodeURIComponent (EmailData.subject (emailData st)) = Inr s \<Longrightarrow>
         encodeURIComponent (EmailData.body (emailData st)) = Inl e \<Longrightarrow>
           formatData st = Inl e"
  using assms by (simp_all add: formatData_def)

subsection \<open>The vCard block\<close>

lemma splitLines_single: "nl \<notin> set l \<Longrightarrow> splitLines l = [l]"
  by (induction l) auto

lemma splitLines_first: "nl \<notin> set l \<Longrightarrow> splitLines (l @ nl # r) = l # splitLines r"
  by (induction l) auto

text \<open>Splitting undoes joining when no line holds a line feed.\<close>

lemma split_join:
  "ls \<noteq> [] \<Longrightarrow> \<forall>l \<in> set ls. nl \<notin> set l \<Longrightarrow> splitLines (joinLines ls) = ls"
proof (induction ls rule: joinLines.induct)
  case 1
  then show ?case by simp
next
  case (2 l)
  then show ?case by (simp add: splitLines_single)
next
  case (3 l v va)
  then show ?case by (simp add: splitLines_first)
qed

lemma vcard_literals_no_nl:
  "nl \<notin> set (js ''BEGIN:VCARD'')" "nl \<notin> set (js ''VERSION:3.0'')"
  "nl \<notin> set (js ''FN:'')" "nl \<notin> set (js '' '')" "nl \<notin> set (js ''ORG:'')"
  "nl \<notin> set (js ''TITLE:'')" "nl \<notin> set (js ''EMAIL:'')" "nl \<notin> set (js ''TEL:'')"
  "nl \<notin> set (js ''TEL;TYPE=CELL:'')" "nl \<notin> set (js ''END:VCARD'')"
  by code_simp+

text \<open>
  C2, as stated: the contact payload is an 8-line block. For the record of the
  specification's example the payload has nine lines.
\<close>

theorem vcard_eight_lines_counterexample:
  "formatData contactExample = Inr vcardExample
   \<and> length (splitLines vcardExample) = 9
   \<and> length (splitLines vcardExample) \<noteq> 8"
  by code_simp

text \<open>
  C2, amended. On the contact tab the payload is the nine lines \<open>BEGIN:VCARD\<close>,
  \<open>VERSION:3.0\<close>, \<open>FN:<first> <last>\<close>, \<open>ORG:<org>\<close>, \<open>TITLE:<title>\<close>,
  \<open>EMAIL:<email>\<close>, \<open>TEL:<phone>\<close>, \<open>TEL;TYPE=CELL:<mobile>\<close>, \<open>END:VCARD\<close>,
  in this order, joined by line feeds, every field interpolated as it is; when no field
  holds a line feed, cutting the payload at its line feeds gives these nine lines back.
\<close>

theorem format_contact:
  assumes "activeTab st = Contact"
  shows "formatData st = Inr (joinLines (vcardLines (contactData st)))
         \<and> length (vcardLines (contactData st)) = 9
         \<and> ((\<forall>f \<in> set (contactFields (contactData st)). nl \<notin> set f) \<longrightarrow>
              splitLines (joinLines (vcardLines (contactData st)))
                = vcardLines (contactData st))"
proof (intro conjI impI)
  show "formatData st = Inr (joinLines (vcardLines (contactData st)))"
    using assms by (simp add: formatData_def vcardLines_def)
  show "length (vcardLines (contactData st)) = 9"
    by (simp add: vcardLines_def)
  assume "\<forall>f \<in> set (contactFields (contactData st)). nl \<notin> set f"
  then have "\<forall>l \<in> set (vcardLines (contactData st)). nl \<notin> set l"
    by (simp add: contactFields_def vcardLines_def vcard_literals_no_nl)
  moreover have "vcardLines (contactData st) \<noteq> []"
    by (simp add: vcardLines_def)
  ultimately show "splitLines (joinLines (vcardLines (contactData st)))
                     = vcardLines (contactData st)"
    by (rule split_join [rotated])
qed

theorem format_contact_witness:
  "activeTab contactExample = Contact
   \<and> nl \<notin> set (concat (contactFields (contactData contactExample)))
   \<and> formatData contactExample = Inr vcardExample
   \<and> splitLines vcardExample =
       [js ''BEGIN:VCARD'', js ''VERSION:3.0'', js ''FN:Jane Doe'', js ''ORG:Acme'',
        js ''TITLE:Eng'', js ''EMAIL:j@acme.com'', js ''TEL:111'', js ''TEL;TYPE=CELL:222'',
        js ''END:VCARD'']"
proof -
  have t: "activeTab contactExample = Contact"
    by (simp add: contactExample_def)
  have f: "\<forall>f \<in> set (contactFields (contactData contactExample)). nl \<notin> set f"
    by code_simp
  have j: "joinLines (vcardLines (contactData contactExample)) = vcardExample"
    by code_simp
  have v: "vcardLines (contactData contactExample) =
       [js ''BEGIN:VCARD'', js ''VERSION:3.0'', js ''FN:Jane Doe'', js ''ORG:Acme'',
        js ''TITLE:Eng'', js ''EMAIL:j@acme.com'', js ''TEL:111'', js ''TEL;TYPE=CELL:222'',
        js ''END:VCARD'']"
    by code_simp
  from f have c: "nl \<notin> set (concat (contactFields (contactData contactExample)))"
    by simp
  from format_contact [OF t] f c j v t show ?thesis by simp
qed

subsection \<open>WiFi, URL and text\<close>

text \<open>
  C3. On the wifi tab the payload is
  \<open>WIFI:T:<security>;S:<ssid>;P:<password>;H:<true|false>;\<close>, the three strings
  interpolated as they are and the boolean written in lower case.
\<close>

theorem format_wifi:
  assumes "activeTab st = Wifi"
  shows "formatData st =
           Inr (js ''WIFI:T:'' @ WiFiData.security (wifiData st)
                @ js '';S:'' @ WiFiData.ssid (wifiData st)
                @ js '';P:'' @ WiFiData.password (wifiData st)
                @ js '';H:'' @ (if WiFiData.hidden (wifiData st) then js ''true'' else js ''false'')
                @ js '';'')"
  using assms by (simp add: formatData_def boolString_def)

theorem format_wifi_witness:
  "activeTab wifiExample = Wifi
   \<and> formatData wifiExample = Inr (js ''WIFI:T:WPA;S:Net;P:pw;H:true;'')"
  using format_wifi [of wifiExample] by (simp add: wifiExample_def js_def)

text \<open>
  C4. On the url and text tabs an empty input gives the placeholder
  (\<open>https://example.com\<close>, \<open>Sample text\<close>) and a non-empty input is the payload as
  it is.
\<close>

theorem format_url_text:
  "(activeTab st = Url \<longrightarrow>
      formatData st = Inr (if urlData st = [] then js ''https://example.com'' else urlData st))
   \<and> (activeTab st = Text \<longrightarrow>
      formatData st = Inr (if textData st = [] then js ''Sample text'' else textData st))"
  by (simp add: formatData_def)

theorem format_url_text_witness:
  "activeTab initialForm = Url
   \<and> formatData initialForm = Inr (js ''https://example.com'')
   \<and> activeTab (initialForm\<lparr>activeTab := Text, textData := js ''hello''\<rparr>) = Text
   \<and> formatData (initialForm\<lparr>activeTab := Text, textData := js ''hello''\<rparr>)
       = Inr (js ''hello'')"
  using format_url_text [of initialForm]
    format_url_text [of "initialForm\<lparr>activeTab := Text, textData := js ''hello''\<rparr>"]
  by (simp add: initialForm_def js_def)


section \<open>The encoder\<close>

lemma settle_fulfilled:
  assumes "i < length (inflight w)" and "toDataURL pf (inflight w ! i) = Inr url"
  shows "settle pf i w = setQrCode url (w\<lparr>inflight := dropAt i (inflight w)\<rparr>)"
  using assms by (simp add: settle_def)

lemma settle_rejected:
  assumes "i < length (inflight w)" and "toDataURL pf (inflight w ! i) = Inl e"
  shows "settle pf i w = w\<lparr>inflight := dropAt i (inflight w), unhandled := unhandled w @ [e]\<rparr>"
  using assms by (simp add: settle_def)

text \<open>\<open>racingWorld\<close> is reached from the mounted component.\<close>

lemma racingWorld_reached:
  "runFromMount (demoPlatform 2331) [SetUrlData (js ''a''), SetUrlData (js ''ab''), Settle 0]
     = Inr racingWorld"
  by code_simp

text \<open>
  C5, as stated: a stale encode result never overwrites the result of a newer payload.
  The user types \<open>a\<close>, then \<open>b\<close>; the encode of \<open>ab\<close> resolves, then the encode of
  \<open>a\<close>. The payload is \<open>ab\<close> and the image shown is the one of \<open>a\<close>.
\<close>

theorem stale_encode_counterexample:
  "shown (runFromMount (demoPlatform 2331)
            [SetUrlData (js ''a''), SetUrlData (js ''ab''), Settle 0, Settle 1, Settle 0])
     = Some (js ''ab'', js ''data:image/png;a'')
   \<and> toDataURL (demoPlatform 2331) (js ''ab'') = Inr (js ''data:image/png;ab'')
   \<and> js ''data:image/png;a'' \<noteq> js ''data:image/png;ab''"
  by code_simp

text \<open>
  C5, amended. Encode results are applied in completion order: with the encodes of
  \<open>p1\<close> and then \<open>p2\<close> in flight, if the one of \<open>p2\<close> resolves first and the one of
  \<open>p1\<close> after it, the image shown at the end is the result for \<open>p1\<close>; if they resolve
  in the order issued, it is the result for \<open>p2\<close>.
\<close>

theorem encode_completion_order:
  assumes "inflight w = [p1, p2]"
    and "toDataURL pf p1 = Inr i1"
    and "toDataURL pf p2 = Inr i2"
  shows "run pf [Settle 1, Settle 0] w = Inr (setQrCode i1 (w\<lparr>inflight := []\<rparr>))
         \<and> run pf [Settle 0, Settle 0] w = Inr (setQrCode i2 (w\<lparr>inflight := []\<rparr>))"
  using assms by (simp add: settle_def dropAt_def setQrCode_def)

theorem encode_completion_order_witness:
  "inflight racingWorld = [js ''a'', js ''ab'']
   \<and> toDataURL (demoPlatform 2331) (js ''a'') = Inr (js ''data:image/png;a'')
   \<and> toDataURL (demoPlatform 2331) (js ''ab'') = Inr (js ''data:image/png;ab'')
   \<and> shown (run (demoPlatform 2331) [Settle 1, Settle 0] racingWorld)
       = Some (js ''ab'', js ''data:image/png;a'')
   \<and> shown (run (demoPlatform 2331) [Settle 0, Settle 0] racingWorld)
       = Some (js ''ab'', js ''data:image/png;ab'')"
proof -
  have i: "inflight racingWorld = [js ''a'', js ''ab'']"
    by (simp add: racingWorld_def)
  have a: "toDataURL (demoPlatform 2331) (js ''a'') = Inr (js ''data:image/png;a'')"
    by (simp add: demoPlatform_def js_def)
  have b: "toDataURL (demoPlatform 2331) (js ''ab'') = Inr (js ''data:image/png;ab'')"
    by (simp add: demoPlatform_def js_def)
  have q: "qrData (form racingWorld) = js ''ab''"
    by (simp add: racingWorld_def)
  from encode_completion_order [OF i a b] i a b q show ?thesis
    by (simp add: shown_def setQrCode_def)
qed

text \<open>
  C6. When the encoder rejects, the image keeps its value, but no notice is shown and
  the rejection stays unhandled. The user opens the text tab and enters 3000 letters;
  the encoder rejects the payload: the image is still the one of \<open>Sample text\<close>, there
  is no toast, and the rejection is left unhandled.
\<close>

theorem encode_rejection_unhandled:
  "observed (runFromMount (demoPlatform 2331)
       [Settle 0, SetActiveTab Text, Settle 0, SetTextData oversized, Settle 0])
   = Some (js ''data:image/png;Sample text'', [], [EncodeFailure])"
  by code_simp


section \<open>The handlers\<close>

text \<open>
  C7. With no image (\<open>qrCode\<close> empty) each of the three handlers returns without an
  exception and leaves everything as it was: the form state, and also no file saved and
  no toast shown.
\<close>

theorem handlers_without_image:
  assumes "qrCode (form w) = []"
  shows "downloadQR w = Inr w \<and> copyQR pf w = Inr w \<and> shareQR pf w = Inr w"
  using assms by (simp add: downloadQR_def copyQR_def shareQR_def)

theorem handlers_without_image_witness:
  "qrCode (form initialWorld) = []
   \<and> downloadQR initialWorld = Inr initialWorld
   \<and> copyQR (demoPlatform 2331) initialWorld = Inr initialWorld
   \<and> shareQR (demoPlatform 2331) initialWorld = Inr initialWorld"
proof -
  have q: "qrCode (form initialWorld) = []"
    by (simp add: initialWorld_def initialForm_def)
  from handlers_without_image [OF q, of "demoPlatform 2331"] q show ?thesis by simp
qed

text \<open>
  C8. Whatever the platform does, each handler returns without an exception and the
  form state (tab, records, payload, image) is what it was.
\<close>

theorem handlers_preserve_form:
  "formAfter (downloadQR w) = Some (form w)
   \<and> formAfter (copyQR pf w) = Some (form w)
   \<and> formAfter (shareQR pf w) = Some (form w)"
  by (simp add: formAfter_def downloadQR_def copyQR_def shareQR_def copyAttempt_def
        shareAttempt_def toast_def split: sum.splits)

text \<open>
  C9. With an image shown, a rejected clipboard write ends in the toast \<open>Copy Failed\<close>
  and a rejected share in the toast \<open>Share Failed\<close>, and no exception leaves the
  handler; without \<open>navigator.share\<close> the share handler does nothing at all.
\<close>

theorem copy_share_failures:
  "(qrCode (form w) \<noteq> [] \<and> fetchBlob pf (qrCode (form w)) = Inr b
      \<and> clipboardWrite pf b = Inl e \<longrightarrow>
      copyQR pf w = Inr (toast copyFailedToast w))
   \<and> (hasShare pf \<and> qrCode (form w) \<noteq> [] \<and> fetchBlob pf (qrCode (form w)) = Inr b
      \<and> share pf (js ''QR Code'') (fileName (form w)) b = Inl e' \<longrightarrow>
      shareQR pf w = Inr (toast shareFailedToast w))
   \<and> (\<not> hasShare pf \<longrightarrow> shareQR pf w = Inr w)"
  by (simp add: copyQR_def shareQR_def copyAttempt_def shareAttempt_def)

theorem copy_share_failures_witness:
  "qrCode (form imageWorld) \<noteq> []
   \<and> hasShare (demoPlatform 2331)
   \<and> fetchBlob (demoPlatform 2331) (qrCode (form imageWorld))
       = Inr (map ucast (qrCode (form imageWorld)))
   \<and> clipboardWrite (demoPlatform 2331) (map ucast (qrCode (form imageWorld)))
       = Inl ClipboardFailure
   \<and> share (demoPlatform 2331) (js ''QR Code'') (fileName (form imageWorld))
         (map ucast (qrCode (form imageWorld))) = Inl ShareFailure
   \<and> copyQR (demoPlatform 2331) imageWorld = Inr (toast copyFailedToast imageWorld)
   \<and> shareQR (demoPlatform 2331) imageWorld = Inr (toast shareFailedToast imageWorld)
   \<and> \<not> hasShare ((demoPlatform 2331)\<lparr>hasShare := False\<rparr>)
   \<and> shareQR ((demoPlatform 2331)\<lparr>hasShare := False\<rparr>) imageWorld = Inr imageWorld"
proof -
  have q: "qrCode (form imageWorld) \<noteq> []"
    by (simp add: imageWorld_def setQrCode_def js_def)
  have p: "hasShare (demoPlatform 2331)"
    "fetchBlob (demoPlatform 2331) (qrCode (form imageWorld))
       = Inr (map ucast (qrCode (form imageWorld)))"
    "clipboardWrite (demoPlatform 2331) (map ucast (qrCode (form imageWorld)))
       = Inl ClipboardFailure"
    "share (demoPlatform 2331) (js ''QR Code'') (fileName (form imageWorld))
         (map ucast (qrCode (form imageWorld))) = Inl ShareFailure"
    "\<not> hasShare ((demoPlatform 2331)\<lparr>hasShare := False\<rparr>)"
    by (simp_all add: demoPlatform_def)
  from copy_share_failures [of imageWorld "demoPlatform 2331"
      "map ucast (qrCode (form imageWorld))" ClipboardFailure ShareFailure]
    copy_share_failures [of imageWorld "(demoPlatform 2331)\<lparr>hasShare := False\<rparr>"]
    q p
  show ?thesis by simp
qed


section \<open>The payload is never empty\<close>

lemma formatData_nonempty: "formatData st = Inr d \<Longrightarrow> d \<noteq> []"
  by (cases "activeTab st")
     (auto simp: formatData_def js_def split: sum.splits if_splits)

lemma formatData_defined:
  "payloadFieldsWellFormed st \<longleftrightarrow> (\<exists>d. formatData st = Inr d)"
  by (cases "activeTab st")
     (auto simp: formatData_def payloadFieldsWellFormed_def encodeURIComponent_wellFormed
        split: sum.splits)

lemma formatData_error: "formatData st = Inl e \<Longrightarrow> e = URIError"
  by (cases "activeTab st")
     (auto simp: formatData_def split: sum.splits dest: encodeURIComponent_error)

text \<open>The mounted component: the placeholder is the payload and its encode is in flight.\<close>

lemma mount_value:
  "mount = Inr (initialWorld\<lparr>form := initialForm\<lparr>qrData := js ''https://example.com''\<rparr>,
                            inflight := [js ''https://example.com'']\<rparr>)"
  by (simp add: mount_def initialWorld_def initialForm_def formatData_def rerender_def
        encodeEffect_def setQrData_def js_def)

text \<open>
  C10, as stated: for every record the payload is a non-empty string, and every
  recomputation triggers an encode. With a lone surrogate as email subject the switch
  raises \<open>URIError\<close> and there is no payload. And after mount one encode is in flight;
  typing into the text field while the url tab is active recomputes the same payload and
  issues no encode.
\<close>

theorem payload_nonempty_counterexample:
  "formatData surrogateExample = Inl URIError
   \<and> pending mount = Some [js ''https://example.com'']
   \<and> pending (runFromMount (demoPlatform 2331) [SetTextData (js ''x'')])
       = Some [js ''https://example.com'']"
  by code_simp

text \<open>
  C10, amended. When the fields the active tab encodes are well formed, the payload is
  a non-empty string; otherwise the switch raises \<open>URIError\<close>. After a recomputation
  that returns, \<open>qrData\<close> is not empty, so the guard of the encode effect fails only
  on the initial state; a recomputation that changes the payload issues one encode of the
  new payload, and one that leaves it as it was issues none.
\<close>

theorem payload_nonempty:
  "(payloadFieldsWellFormed st \<longrightarrow> (\<exists>d. formatData st = Inr d \<and> d \<noteq> []))
   \<and> (\<not> payloadFieldsWellFormed st \<longrightarrow> formatData st = Inl URIError)
   \<and> (commit w = Inr w' \<longrightarrow>
        qrData (form w') \<noteq> []
        \<and> inflight w' = (if qrData (form w') = qrData (form w) then inflight w
                         else inflight w @ [qrData (form w')]))"
proof (intro conjI impI)
  assume "payloadFieldsWellFormed st"
  then show "\<exists>d. formatData st = Inr d \<and> d \<noteq> []"
    using formatData_defined [of st] formatData_nonempty [of st] by blast
next
  assume "\<not> payloadFieldsWellFormed st"
  then show "formatData st = Inl URIError"
    using formatData_defined [of st] formatData_error [of st]
    by (cases "formatData st") auto
next
  assume c: "commit w = Inr w'"
  then obtain d where d: "formatData (form w) = Inr d" and w': "w' = rerender d w"
    by (auto simp: commit_def split: sum.splits)
  from d have ne: "d \<noteq> []" by (rule formatData_nonempty)
  from w' ne show "qrData (form w') \<noteq> []"
    by (auto simp: rerender_def encodeEffect_def setQrData_def)
  from w' ne show "inflight w' = (if qrData (form w') = qrData (form w) then inflight w
                         else inflight w @ [qrData (form w')])"
    by (auto simp: rerender_def encodeEffect_def setQrData_def)
qed

theorem payload_nonempty_witness:
  "payloadFieldsWellFormed emailExample
   \<and> formatData emailExample
       = Inr (js ''mailto:a@b.com?subject=Hi%20there&body=line1%26line2'')
   \<and> \<not> payloadFieldsWellFormed surrogateExample
   \<and> formatData surrogateExample = Inl URIError
   \<and> commit emailWorld = Inr emailWorldCommitted
   \<and> qrData (form emailWorldCommitted) \<noteq> []
   \<and> inflight emailWorldCommitted = inflight emailWorld @ [qrData (form emailWorldCommitted)]"
proof -
  have e: "payloadFieldsWellFormed emailExample"
    by code_simp
  have s: "\<not> payloadFieldsWellFormed surrogateExample"
    by code_simp
  have f: "formatData emailExample
             = Inr (js ''mailto:a@b.com?subject=Hi%20there&body=line1%26line2'')"
    by code_simp
  have c: "commit emailWorld = Inr emailWorldCommitted"
    using f
    by (simp add: commit_def rerender_def encodeEffect_def setQrData_def initialWorld_def
          emailWorld_def emailWorldCommitted_def emailExample_def initialForm_def js_def)
  have q: "qrData (form emailWorldCommitted) \<noteq> qrData (form emailWorld)"
    by (simp add: emailWorld_def emailWorldCommitted_def emailExample_def initialForm_def
          js_def)
  from payload_nonempty [of emailExample emailWorld emailWorldCommitted]
    payload_nonempty [of surrogateExample emailWorld emailWorldCommitted] e s f c q
  show ?thesis by simp
qed

end
